theory Spec2Isabelle
  imports Complex_Main
begin

section \<open>Clear-sky day filter: the data model\<close>

text \<open>
  The embedding follows \<^verbatim>\<open>ClearSkyDayFinder.py\<close>. Conventions:
  \<^item> a timestamp is an \<^typ>\<open>int\<close>, the nanoseconds since the epoch (the docstring: time
    values as utc in ns);
  \<^item> a floating-point value is a \<^typ>\<open>real\<close>; a polars null or a numpy NaN is \<open>None\<close>, and a
    comparison with NaN is false, as in numpy. Rounding is not modelled;
  \<^item> the input frame has no null cell and no column named \<^verbatim>\<open>day_time\<close>;
  \<^item> a sort keeps rows with equal keys in their order (polars leaves that order open);
  \<^item> a Python exception is a value of \<open>error\<close> on the left of a sum;
  \<^item> printing, plotting and the progress bar are left out: they change no data.
\<close>

datatype error = TypeError | IndexError

text \<open>One row of the three columns the code reads (lines 195-197 and 207-209).\<close>

record sample =
  time_col :: int
  power_col :: real
  id_col :: int

text \<open>A row after \<^verbatim>\<open>add_daytime\<close>, and a row of the returned frame.\<close>

record day_sample = sample +
  day_time :: real

record clear_sky_row = day_sample +
  Corr :: real

subsection \<open>Calendar fields of a timestamp\<close>

definition ns_per_day :: int where
  "ns_per_day = 86400000000000"

definition date_of :: "int \<Rightarrow> int" where
  "date_of t = t div ns_per_day"

definition hour_of :: "int \<Rightarrow> int" where
  "hour_of t = (t mod ns_per_day) div 3600000000000"

definition minute_of :: "int \<Rightarrow> int" where
  "minute_of t = ((t mod ns_per_day) div 60000000000) mod 60"

definition second_of :: "int \<Rightarrow> int" where
  "second_of t = ((t mod ns_per_day) div 1000000000) mod 60"

text \<open>Lines 310-312: hour * 60 + minute + second / 60.\<close>

definition daytime_of :: "int \<Rightarrow> real" where
  "daytime_of t = of_int (hour_of t) * 60 + of_int (minute_of t) + of_int (second_of t) / 60"

definition add_daytime_row :: "sample \<Rightarrow> day_sample" where
  "add_daytime_row r =
     \<lparr>time_col = time_col r, power_col = power_col r, id_col = id_col r,
      day_time = daytime_of (time_col r)\<rparr>"

text \<open>
  \<^verbatim>\<open>add_daytime\<close> on a frame without the column (line 310). On a frame that has the
  column it returns its argument (line 314); the callers below then use the frame as it is.
\<close>

definition add_daytime :: "sample list \<Rightarrow> day_sample list" where
  "add_daytime day_data = map add_daytime_row day_data"

text \<open>The column list of a frame, for the \<^verbatim>\<open>if "day_time" not in day_data.columns\<close>.\<close>

definition add_daytime_columns :: "string list \<Rightarrow> string list" where
  "add_daytime_columns cols = (if ''day_time'' \<notin> set cols then cols @ [''day_time''] else cols)"

subsection \<open>The frequency estimate\<close>

text \<open>\<^verbatim>\<open>array[1:] - array[:-1]\<close>.\<close>

definition consecutive_diffs :: "real list \<Rightarrow> real list" where
  "consecutive_diffs a = map2 (\<lambda>x y. x - y) (tl a) (butlast a)"

text \<open>\<^verbatim>\<open>np.median\<close>: NaN on an empty array.\<close>

definition median :: "real list \<Rightarrow> real option" where
  "median xs =
     (let n = length xs; s = sort xs in
      if n = 0 then None
      else if odd n then Some (s ! (n div 2))
      else Some ((s ! (n div 2 - 1) + s ! (n div 2)) / 2))"

definition get_frequence :: "sample list \<Rightarrow> real option" where
  "get_frequence id_data =
     (let id_data' = sort_key day_time (add_daytime id_data) in
      median (consecutive_diffs (map day_time id_data')))"

text \<open>Line 113: \<^verbatim>\<open>frequence = get_frequence(module_data, column_time) * 60\<close>.\<close>

definition frequence_of :: "sample list \<Rightarrow> real option" where
  "frequence_of module_data = map_option (\<lambda>m. m * 60) (get_frequence module_data)"

text \<open>Comparisons of a float that may be NaN with a number.\<close>

definition nan_le :: "real option \<Rightarrow> real \<Rightarrow> bool" where
  "nan_le f c = (case f of None \<Rightarrow> False | Some v \<Rightarrow> v \<le> c)"

definition nan_gt :: "real option \<Rightarrow> real \<Rightarrow> bool" where
  "nan_gt f c = (case f of None \<Rightarrow> False | Some v \<Rightarrow> v > c)"

subsection \<open>The tunables and their defaults\<close>

text \<open>
  The six keyword arguments that line 114-172 may rebind. They are local variables of
  \<^verbatim>\<open>get_clearskydays\<close>, assigned inside the loop over the streams: the record is the
  state that one iteration hands to the next.
\<close>

record tunables =
  min_number_of_datapoints :: "int option"
  prep_smooth_kernal :: "nat option"
  smooth_kernal :: "nat option"
  hole_size_threshold :: "int option"
  n_max_exceeds :: "int option"
  max_dist :: "real option"

text \<open>Lines 114-125.\<close>

definition default_min_number_of_datapoints :: "real option \<Rightarrow> tunables \<Rightarrow> tunables" where
  "default_min_number_of_datapoints frequence ps =
     (if min_number_of_datapoints ps = None then
        (if nan_le frequence 1 then ps\<lparr>min_number_of_datapoints := Some 300\<rparr>
         else if nan_gt frequence 1 \<and> nan_le frequence 5 then ps\<lparr>min_number_of_datapoints := Some 100\<rparr>
         else if nan_gt frequence 5 \<and> nan_le frequence 10 then ps\<lparr>min_number_of_datapoints := Some 70\<rparr>
         else if nan_gt frequence 10 \<and> nan_le frequence 15 then ps\<lparr>min_number_of_datapoints := Some 45\<rparr>
         else ps\<lparr>min_number_of_datapoints := Some 20\<rparr>)
      else ps)"

text \<open>Lines 126-133.\<close>

definition default_prep_smooth_kernal :: "real option \<Rightarrow> tunables \<Rightarrow> tunables" where
  "default_prep_smooth_kernal frequence ps =
     (if prep_smooth_kernal ps = None then
        (if nan_le frequence 1 then ps\<lparr>prep_smooth_kernal := Some 10\<rparr>
         else if nan_gt frequence 1 \<and> nan_le frequence 5 then ps\<lparr>prep_smooth_kernal := Some 5\<rparr>
         else ps\<lparr>prep_smooth_kernal := Some 2\<rparr>)
      else ps)"

text \<open>Lines 134-145.\<close>

definition default_smooth_kernal :: "real option \<Rightarrow> tunables \<Rightarrow> tunables" where
  "default_smooth_kernal frequence ps =
     (if smooth_kernal ps = None then
        (if nan_le frequence 1 then ps\<lparr>smooth_kernal := Some 60\<rparr>
         else if nan_gt frequence 1 \<and> nan_le frequence 5 then ps\<lparr>smooth_kernal := Some 30\<rparr>
         else if nan_gt frequence 5 \<and> nan_le frequence 10 then ps\<lparr>smooth_kernal := Some 15\<rparr>
         else if nan_gt frequence 10 \<and> nan_le frequence 15 then ps\<lparr>smooth_kernal := Some 10\<rparr>
         else ps\<lparr>smooth_kernal := Some 2\<rparr>)
      else ps)"

text \<open>Lines 146-157; the last branch assigns \<^verbatim>\<open>min_number_of_datapoints\<close> (line 156).\<close>

definition default_hole_size_threshold :: "real option \<Rightarrow> tunables \<Rightarrow> tunables" where
  "default_hole_size_threshold frequence ps =
     (if hole_size_threshold ps = None then
        (if nan_le frequence 1 then ps\<lparr>hole_size_threshold := Some 30\<rparr>
         else if nan_gt frequence 1 \<and> nan_le frequence 5 then ps\<lparr>hole_size_threshold := Some 30\<rparr>
         else if nan_gt frequence 5 \<and> nan_le frequence 10 then ps\<lparr>hole_size_threshold := Some 50\<rparr>
         else if nan_gt frequence 10 \<and> nan_le frequence 15 then ps\<lparr>hole_size_threshold := Some 60\<rparr>
         else ps\<lparr>min_number_of_datapoints := Some 120\<rparr>)
      else ps)"

text \<open>Lines 158-169.\<close>

definition default_n_max_exceeds :: "real option \<Rightarrow> tunables \<Rightarrow> tunables" where
  "default_n_max_exceeds frequence ps =
     (if n_max_exceeds ps = None then
        (if nan_le frequence 1 then ps\<lparr>n_max_exceeds := Some 300\<rparr>
         else if nan_gt frequence 1 \<and> nan_le frequence 5 then ps\<lparr>n_max_exceeds := Some 100\<rparr>
         else if nan_gt frequence 5 \<and> nan_le frequence 10 then ps\<lparr>n_max_exceeds := Some 70\<rparr>
         else if nan_gt frequence 10 \<and> nan_le frequence 15 then ps\<lparr>n_max_exceeds := Some 45\<rparr>
         else ps\<lparr>n_max_exceeds := Some 20\<rparr>)
      else ps)"

text \<open>\<^verbatim>\<open>np.max\<close> of a column; the streams of \<^verbatim>\<open>partition_by\<close> are never empty.\<close>

definition np_max :: "real list \<Rightarrow> real" where
  "np_max xs = foldl max (hd xs) (tl xs)"

text \<open>Lines 170-172.\<close>

definition default_max_dist :: "sample list \<Rightarrow> tunables \<Rightarrow> tunables" where
  "default_max_dist module_data ps =
     (if max_dist ps = None
      then ps\<lparr>max_dist := Some (np_max (map power_col module_data) * 0.3)\<rparr>
      else ps)"

text \<open>Lines 113-172, in the order of the source.\<close>

definition set_defaults :: "sample list \<Rightarrow> tunables \<Rightarrow> tunables" where
  "set_defaults module_data ps =
     (let frequence = frequence_of module_data in
      default_max_dist module_data
        (default_n_max_exceeds frequence
          (default_hole_size_threshold frequence
            (default_smooth_kernal frequence
              (default_prep_smooth_kernal frequence
                (default_min_number_of_datapoints frequence ps))))))"

subsection \<open>Grouping\<close>

text \<open>
  Groups of a frame by a key, in the order in which the keys first occur, each group in
  the order of its rows. This is \<^verbatim>\<open>partition_by\<close>; it is also \<^verbatim>\<open>group_by\<close> on a frame
  sorted by the key, which yields the keys in ascending order (the \<^verbatim>\<open>join_asof\<close> of line 227
  needs the template sorted that way). The order of the days of \<^verbatim>\<open>group_by("date")\<close> is not
  fixed by polars; the model takes the order of first occurrence there too.
\<close>

definition first_seen :: "'k list \<Rightarrow> 'k list" where
  "first_seen ks = rev (remdups (rev ks))"

definition group_by :: "('a \<Rightarrow> 'k) \<Rightarrow> 'a list \<Rightarrow> ('k \<times> 'a list) list" where
  "group_by f xs = map (\<lambda>k. (k, filter (\<lambda>x. f x = k) xs)) (first_seen (map f xs))"

text \<open>Line 110: \<^verbatim>\<open>data.partition_by(column_id)\<close>.\<close>

definition partition_by :: "sample list \<Rightarrow> sample list list" where
  "partition_by data = map snd (group_by id_col data)"



text \<open>Lines 203-209: the days of a window.\<close>

definition group_by_date :: "sample list \<Rightarrow> sample list list" where
  "group_by_date month_data = map snd (group_by (\<lambda>r. date_of (time_col r)) month_data)"

subsection \<open>The clear-sky template\<close>

text \<open>
  \<^verbatim>\<open>rolling_mean(window_size=w, center=True)\<close>: the window of row \<open>i\<close> is the \<open>w\<close> rows from
  \<open>i - (w - (w + 1) div 2)\<close> on; the value is null unless the window lies inside the column
  and holds no null (\<^verbatim>\<open>min_samples\<close> defaults to the window size). A window size of zero
  is not modelled.
\<close>

definition rolling_window :: "nat \<Rightarrow> 'a list \<Rightarrow> nat \<Rightarrow> 'a list option" where
  "rolling_window w xs i =
     (let r = (w + 1) div 2; l = w - r in
      if i < l \<or> length xs < i + r then None else Some (take w (drop (i - l) xs)))"

definition window_mean :: "real option list \<Rightarrow> real option" where
  "window_mean win = map_option (\<lambda>vs. sum_list vs / of_nat (length vs)) (those win)"

definition rolling_mean :: "nat \<Rightarrow> real option list \<Rightarrow> real option list" where
  "rolling_mean w xs =
     map (\<lambda>i. case rolling_window w xs i of None \<Rightarrow> None | Some win \<Rightarrow> window_mean win)
       [0..<length xs]"

text \<open>The \<^verbatim>\<open>max\<close> aggregation: nulls are skipped, a group of nulls gives null.\<close>

definition agg_max :: "real option list \<Rightarrow> real option" where
  "agg_max vs = (case List.map_filter (\<lambda>v. v) vs of [] \<Rightarrow> None | x # xs \<Rightarrow> Some (foldl max x xs))"

record template_row =
  cst_day_time :: real
  cst_power :: "real option"
  tmp_power :: "real option"

text \<open>Lines 292-300.\<close>

definition get_clearskytemplate ::
  "sample list \<Rightarrow> real \<Rightarrow> nat option \<Rightarrow> nat option \<Rightarrow> template_row list" where
  "get_clearskytemplate id_data percentil prep_smooth smooth =
     (let cst = sort_key day_time (add_daytime id_data);
          pw = (case prep_smooth of
                  None \<Rightarrow> map (\<lambda>r. Some (power_col r)) cst
                | Some w \<Rightarrow> rolling_mean w (map (\<lambda>r. Some (power_col r)) cst));
          grouped = group_by fst (zip (map day_time cst) pw);
          maxed = map (\<lambda>(k, g). (k, agg_max (map snd g))) grouped;
          corrected = map (\<lambda>(k, v). (k, map_option (\<lambda>p. p * percentil) v)) maxed;
          tmp = (case smooth of
                   None \<Rightarrow> map snd corrected
                 | Some w \<Rightarrow> rolling_mean w (map snd corrected))
      in map2 (\<lambda>(k, v) t. \<lparr>cst_day_time = k, cst_power = v, tmp_power = t\<rparr>) corrected tmp)"

subsection \<open>The checks on one day\<close>

text \<open>
  Lines 324-335. The frame has its \<^verbatim>\<open>day_time\<close> column already. With five rows or more the
  comparison of line 328 raises when the threshold is still \<^verbatim>\<open>None\<close>.
\<close>

definition bad_holes_check :: "day_sample list \<Rightarrow> int option \<Rightarrow> error + (bool \<times> real option)" where
  "bad_holes_check id_data hole_size_thr =
     (let array = map day_time (sort_key day_time id_data) in
      if length array > 4 then
        (let dif = consecutive_diffs array; max_hole = np_max dif in
         case hole_size_thr of
           None \<Rightarrow> Inl TypeError
         | Some h \<Rightarrow> Inr (max_hole < of_int h, Some max_hole))
      else Inr (False, None))"

text \<open>
  Line 227: for each row of the day the last template row whose \<^verbatim>\<open>day_time\<close> is not
  greater (the template is sorted), then \<^verbatim>\<open>drop_nulls\<close>: a row with no match, or matched to
  a null of the template, is dropped.
\<close>

definition asof_backward :: "template_row list \<Rightarrow> real \<Rightarrow> template_row option" where
  "asof_backward cst k =
     (case filter (\<lambda>c. cst_day_time c \<le> k) cst of [] \<Rightarrow> None | c # cs \<Rightarrow> Some (last (c # cs)))"

definition join_asof :: "day_sample list \<Rightarrow> template_row list \<Rightarrow> (day_sample \<times> template_row option) list" where
  "join_asof day_data cst = map (\<lambda>d. (d, asof_backward cst (day_time d))) day_data"

record comp_row =
  comp_day_time :: real
  comp_power :: real
  comp_tmp_power :: real

definition drop_nulls :: "(day_sample \<times> template_row option) list \<Rightarrow> comp_row list" where
  "drop_nulls joined =
     List.map_filter
       (\<lambda>(d, m). case m of
           None \<Rightarrow> None
         | Some c \<Rightarrow>
             (case (cst_power c, tmp_power c) of
                (Some p, Some t) \<Rightarrow>
                  Some \<lparr>comp_day_time = day_time d, comp_power = power_col d, comp_tmp_power = t\<rparr>
              | _ \<Rightarrow> None))
       joined"

text \<open>
  \<^verbatim>\<open>np.corrcoef(x, y)[0, 1]\<close>: the covariance over the two standard deviations, clipped to
  \<open>[-1, 1]\<close>; NaN with fewer than two points or a constant column.
\<close>

definition mean :: "real list \<Rightarrow> real" where
  "mean xs = sum_list xs / of_nat (length xs)"

definition cov :: "real list \<Rightarrow> real list \<Rightarrow> real" where
  "cov xs ys =
     sum_list (map2 (\<lambda>x y. (x - mean xs) * (y - mean ys)) xs ys) / (of_nat (length xs) - 1)"

definition corrcoef :: "real list \<Rightarrow> real list \<Rightarrow> real option" where
  "corrcoef xs ys =
     (if length xs < 2 \<or> cov xs xs = 0 \<or> cov ys ys = 0 then None
      else Some (max (- 1) (min 1 (cov xs ys / sqrt (cov xs xs) / sqrt (cov ys ys)))))"

text \<open>Lines 339-342.\<close>

definition check_distance :: "comp_row list \<Rightarrow> real option \<Rightarrow> int option \<Rightarrow> error + bool" where
  "check_distance comp_data max_d n_max =
     (case max_d of
        None \<Rightarrow> Inl TypeError
      | Some md \<Rightarrow>
          (let difs = map (\<lambda>c. \<bar>comp_power c - comp_tmp_power c\<bar>) comp_data;
               difs' = filter (\<lambda>d. d > md) difs in
           case n_max of
             None \<Rightarrow> Inl TypeError
           | Some n \<Rightarrow> if int (length difs') > n then Inr False else Inr True))"

subsection \<open>The loops of \<^verbatim>\<open>get_clearskydays\<close>\<close>

text \<open>
  The keyword arguments that are never rebound. \<open>comparison_intervall\<close> is the length of
  a window in nanoseconds (the source passes a duration string such as \<^verbatim>\<open>30d\<close>);
  \<open>column_id = None\<close> is the call with no id column.
\<close>

record config =
  column_time :: string
  column_power :: string
  column_id :: "string option"
  comparison_intervall :: int
  percentil :: real
  first_last_limit :: real
  corr_threshold :: real

text \<open>A frame of the result: its column names and its rows.\<close>

record clear_sky_frame =
  frame_columns :: "string list"
  frame_rows :: "clear_sky_row list"

text \<open>Lines 107-108: the name of the id column.\<close>

definition id_column_name :: "config \<Rightarrow> string" where
  "id_column_name cfg = (case column_id cfg of None \<Rightarrow> ''default_id'' | Some c \<Rightarrow> c)"

text \<open>\<^verbatim>\<open>with_columns(... .alias(name))\<close> on the column list: a new name is appended.\<close>

definition with_column_name :: "string list \<Rightarrow> string \<Rightarrow> string list" where
  "with_column_name cols name = (if name \<in> set cols then cols else cols @ [name])"

text \<open>
  Lines 207-212 and 245 on the column list: the three columns of \<^verbatim>\<open>day_data\<close>, then
  \<^verbatim>\<open>day_time\<close>, then \<^verbatim>\<open>Corr\<close>.
\<close>

definition day_columns :: "config \<Rightarrow> string list" where
  "day_columns cfg =
     with_column_name
       (add_daytime_columns [column_time cfg, column_power cfg, id_column_name cfg]) ''Corr''"

text \<open>Line 245: the column \<^verbatim>\<open>Corr\<close>, the same value on every row.\<close>

definition with_Corr :: "real \<Rightarrow> day_sample \<Rightarrow> clear_sky_row" where
  "with_Corr c d =
     \<lparr>time_col = time_col d, power_col = power_col d, id_col = id_col d,
      day_time = day_time d, Corr = c\<rparr>"

text \<open>
  Lines 211-246, the body of the loop over the days of a window: \<open>Inr None\<close> when the day
  is not taken, \<open>Inr (Some frame)\<close> with the frame that line 246 concatenates when it is.
\<close>

definition day_step ::
  "config \<Rightarrow> tunables \<Rightarrow> template_row list \<Rightarrow> sample list \<Rightarrow> error + clear_sky_frame option" where
  "day_step cfg ps cst day_data0 =
     (case min_number_of_datapoints ps of
        None \<Rightarrow> Inl TypeError
      | Some min_points \<Rightarrow>
          if int (length day_data0) > min_points then
            (let day_data = sort_key day_time (add_daytime day_data0) in
             if day_data = [] then Inl IndexError
             else
               (let first_value_check = power_col (hd day_data) \<le> first_last_limit cfg;
                    last_value_check = power_col (last day_data) \<le> first_last_limit cfg in
                if first_value_check \<and> last_value_check then
                  (case bad_holes_check day_data (hole_size_threshold ps) of
                     Inl e \<Rightarrow> Inl e
                   | Inr (check_hole, hole_size) \<Rightarrow>
                       if check_hole then
                         (let comp_data = drop_nulls (join_asof day_data cst) in
                          case corrcoef (map comp_power comp_data) (map comp_tmp_power comp_data) of
                            None \<Rightarrow> Inr None
                          | Some corr \<Rightarrow>
                              if corr > corr_threshold cfg then
                                (case check_distance comp_data (max_dist ps) (n_max_exceeds ps) of
                                   Inl e \<Rightarrow> Inl e
                                 | Inr ok \<Rightarrow>
                                     if ok then
                                       Inr (Some \<lparr>frame_columns = day_columns cfg,
                                                  frame_rows = map (with_Corr corr) day_data\<rparr>)
                                     else Inr None)
                              else Inr None)
                       else Inr None)
                else Inr None))
          else Inr None)"

text \<open>
  The accumulator \<^verbatim>\<open>clear_sky_frame\<close> is kept as the list of the frames concatenated to it
  so far, in order; the frame returned is their concatenation (\<open>concat_frames\<close> below).
\<close>

fun days_loop ::
  "config \<Rightarrow> tunables \<Rightarrow> template_row list \<Rightarrow> sample list list \<Rightarrow> clear_sky_frame list
   \<Rightarrow> error + clear_sky_frame list" where
  "days_loop cfg ps cst [] acc = Inr acc"
| "days_loop cfg ps cst (day_data # days) acc =
     (case day_step cfg ps cst day_data of
        Inl e \<Rightarrow> Inl e
      | Inr None \<Rightarrow> days_loop cfg ps cst days acc
      | Inr (Some frame) \<Rightarrow> days_loop cfg ps cst days (acc @ [frame]))"









text \<open>
  The tunables in force while the streams are processed, one entry for each stream
  (lemma \<open>streams_loop_Inr\<close> below: the loop handles stream \<open>j\<close> with entry \<open>j\<close>).
\<close>

fun tunables_in_force :: "tunables \<Rightarrow> sample list list \<Rightarrow> tunables list" where
  "tunables_in_force ps [] = []"
| "tunables_in_force ps (module_data # streams) =
     set_defaults module_data ps # tunables_in_force (set_defaults module_data ps) streams"

subsection \<open>Concrete inputs\<close>

definition row :: "int \<Rightarrow> real \<Rightarrow> int \<Rightarrow> sample" where
  "row t p i = \<lparr>time_col = t, power_col = p, id_col = i\<rparr>"

text \<open>Every tunable left to the default resolution.\<close>

definition unset_tunables :: tunables where
  "unset_tunables =
     \<lparr>min_number_of_datapoints = None, prep_smooth_kernal = None, smooth_kernal = None,
      hole_size_threshold = None, n_max_exceeds = None, max_dist = None\<rparr>"

text \<open>The defaults of the signature (lines 6-13): only \<^verbatim>\<open>min_number_of_datapoints\<close> is unset.\<close>

definition signature_tunables :: tunables where
  "signature_tunables =
     \<lparr>min_number_of_datapoints = None, prep_smooth_kernal = Some 10, smooth_kernal = Some 60,
      hole_size_threshold = Some 100, n_max_exceeds = Some 50, max_dist = Some 40\<rparr>"

text \<open>Streams of three samples, spaced by 5 minutes, 5 seconds, 1 second and 30 minutes.\<close>

definition stream_5min :: "sample list" where
  "stream_5min = [row 0 0 1, row 300000000000 1 1, row 600000000000 0 1]"

definition stream_5s :: "sample list" where
  "stream_5s = [row 0 0 1, row 5000000000 1 1, row 10000000000 0 1]"

definition stream_1s :: "sample list" where
  "stream_1s = [row 0 0 1, row 1000000000 1 1, row 2000000000 0 1]"

definition stream_30min :: "sample list" where
  "stream_30min = [row 0 0 2, row 1800000000000 1 2, row 3600000000000 0 2]"



text \<open>The defaults of the signature for the arguments that are never rebound.\<close>

definition example_config :: config where
  "example_config =
     \<lparr>column_time = ''time'', column_power = ''power'', column_id = Some ''module_id'',
      comparison_intervall = 30 * ns_per_day, percentil = 0.9, first_last_limit = 0.1,
      corr_threshold = 0.98\<rparr>"

text \<open>Tunables all set by the caller; a smoothing window of one row changes nothing.\<close>

definition manual_tunables :: tunables where
  "manual_tunables =
     \<lparr>min_number_of_datapoints = Some 4, prep_smooth_kernal = Some 1, smooth_kernal = Some 1,
      hole_size_threshold = Some 100, n_max_exceeds = Some 50, max_dist = Some 40\<rparr>"

text \<open>One day of stream 1: five samples from 01:00 to 01:40, ten minutes apart.\<close>

definition clear_day :: "sample list" where
  "clear_day = [row 3600000000000 0 1, row 4200000000000 4 1, row 4800000000000 8 1,
                row 5400000000000 4 1, row 6000000000000 0 1]"

text \<open>Rows of the intermediate frames, written positionally.\<close>

definition drow :: "int \<Rightarrow> real \<Rightarrow> int \<Rightarrow> real \<Rightarrow> day_sample" where
  "drow t p i d = \<lparr>time_col = t, power_col = p, id_col = i, day_time = d\<rparr>"

definition trow :: "real \<Rightarrow> real option \<Rightarrow> real option \<Rightarrow> template_row" where
  "trow k p t = \<lparr>cst_day_time = k, cst_power = p, tmp_power = t\<rparr>"

definition crow :: "real \<Rightarrow> real \<Rightarrow> real \<Rightarrow> comp_row" where
  "crow d p t = \<lparr>comp_day_time = d, comp_power = p, comp_tmp_power = t\<rparr>"

text \<open>
  The exceed count in the words of the specification: the number of aligned pairs whose
  absolute deviation is strictly greater than the allowed one.
\<close>

definition exceed_count :: "comp_row list \<Rightarrow> real \<Rightarrow> nat" where
  "exceed_count comp_data md =
     length (filter (\<lambda>c. \<bar>comp_power c - comp_tmp_power c\<bar> > md) comp_data)"

text \<open>
  In the words of the specification: the largest power among the samples of a day that
  share one \<^verbatim>\<open>day_time\<close>.
\<close>

definition bucket_max :: "day_sample list \<Rightarrow> real \<Rightarrow> real" where
  "bucket_max day_data k = Max (set (map power_col (filter (\<lambda>e. day_time e = k) day_data)))"

text \<open>Two samples of one day within the same second, at 12:00:00.0 and 12:00:00.5.\<close>

definition dup_day :: "sample list" where
  "dup_day = [row 43200000000000 10 1, row 43200500000000 20 1]"

subsection \<open>The result of the loops in closed form\<close>










section \<open>Properties\<close>

subsection \<open>Default resolution\<close>

lemmas freq_defs = get_frequence_def frequence_of_def row_def add_daytime_def add_daytime_row_def daytime_of_def
  hour_of_def minute_of_def second_of_def ns_per_day_def consecutive_diffs_def median_def

lemmas default_defs = set_defaults_def default_min_number_of_datapoints_def default_prep_smooth_kernal_def
  default_smooth_kernal_def default_hole_size_threshold_def default_n_max_exceeds_def default_max_dist_def
  nan_le_def nan_gt_def

lemma get_frequence_5min: "get_frequence stream_5min = Some 5"
  by (simp add: stream_5min_def freq_defs)

lemma frequence_5min: "frequence_of stream_5min = Some 300"
  by (simp add: frequence_of_def get_frequence_5min)

lemma frequence_5s: "frequence_of stream_5s = Some 5"
  by (simp add: stream_5s_def freq_defs)

lemma frequence_1s: "frequence_of stream_1s = Some 1"
  by (simp add: stream_1s_def freq_defs)

lemma frequence_30min: "frequence_of stream_30min = Some 1800"
  by (simp add: stream_30min_def freq_defs)

lemma default_min_fields:
  "prep_smooth_kernal (default_min_number_of_datapoints f ps) = prep_smooth_kernal ps"
  "smooth_kernal (default_min_number_of_datapoints f ps) = smooth_kernal ps"
  "hole_size_threshold (default_min_number_of_datapoints f ps) = hole_size_threshold ps"
  "n_max_exceeds (default_min_number_of_datapoints f ps) = n_max_exceeds ps"
  "max_dist (default_min_number_of_datapoints f ps) = max_dist ps"
  by (simp_all add: default_min_number_of_datapoints_def)

lemma default_prep_fields:
  "min_number_of_datapoints (default_prep_smooth_kernal f ps) = min_number_of_datapoints ps"
  "smooth_kernal (default_prep_smooth_kernal f ps) = smooth_kernal ps"
  "hole_size_threshold (default_prep_smooth_kernal f ps) = hole_size_threshold ps"
  "n_max_exceeds (default_prep_smooth_kernal f ps) = n_max_exceeds ps"
  "max_dist (default_prep_smooth_kernal f ps) = max_dist ps"
  by (simp_all add: default_prep_smooth_kernal_def)

lemma default_smooth_fields:
  "min_number_of_datapoints (default_smooth_kernal f ps) = min_number_of_datapoints ps"
  "prep_smooth_kernal (default_smooth_kernal f ps) = prep_smooth_kernal ps"
  "hole_size_threshold (default_smooth_kernal f ps) = hole_size_threshold ps"
  "n_max_exceeds (default_smooth_kernal f ps) = n_max_exceeds ps"
  "max_dist (default_smooth_kernal f ps) = max_dist ps"
  by (simp_all add: default_smooth_kernal_def)

lemma default_hole_fields:
  "prep_smooth_kernal (default_hole_size_threshold f ps) = prep_smooth_kernal ps"
  "smooth_kernal (default_hole_size_threshold f ps) = smooth_kernal ps"
  "n_max_exceeds (default_hole_size_threshold f ps) = n_max_exceeds ps"
  "max_dist (default_hole_size_threshold f ps) = max_dist ps"
  by (simp_all add: default_hole_size_threshold_def)

lemma default_n_max_fields:
  "min_number_of_datapoints (default_n_max_exceeds f ps) = min_number_of_datapoints ps"
  "prep_smooth_kernal (default_n_max_exceeds f ps) = prep_smooth_kernal ps"
  "smooth_kernal (default_n_max_exceeds f ps) = smooth_kernal ps"
  "hole_size_threshold (default_n_max_exceeds f ps) = hole_size_threshold ps"
  "max_dist (default_n_max_exceeds f ps) = max_dist ps"
  by (simp_all add: default_n_max_exceeds_def)

lemma default_max_dist_fields:
  "min_number_of_datapoints (default_max_dist m ps) = min_number_of_datapoints ps"
  "prep_smooth_kernal (default_max_dist m ps) = prep_smooth_kernal ps"
  "smooth_kernal (default_max_dist m ps) = smooth_kernal ps"
  "hole_size_threshold (default_max_dist m ps) = hole_size_threshold ps"
  "n_max_exceeds (default_max_dist m ps) = n_max_exceeds ps"
  by (simp_all add: default_max_dist_def)

lemmas default_fields = default_min_fields default_prep_fields default_smooth_fields
  default_hole_fields default_n_max_fields default_max_dist_fields

lemma default_hole_top:
  assumes "hole_size_threshold ps = None" and "f > 15"
  shows "default_hole_size_threshold (Some f) ps = ps\<lparr>min_number_of_datapoints := Some 120\<rparr>"
  using assms by (simp add: default_hole_size_threshold_def nan_le_def nan_gt_def)

lemma default_hole_low:
  assumes "f \<le> 15"
  shows "min_number_of_datapoints (default_hole_size_threshold (Some f) ps) = min_number_of_datapoints ps"
  using assms by (simp add: default_hole_size_threshold_def nan_le_def nan_gt_def)

text \<open>
  C1, as stated, fails: a stream whose median inter-sample spacing is 5.0 minutes has the
  frequency value 300 (line 113 multiplies the estimate by 60), which falls in the last
  bucket, not in the bucket \<open>1 < f \<le> 5\<close>.
\<close>

theorem C1_five_minutes_counterexample:
  "get_frequence stream_5min = Some 5 \<and>
   min_number_of_datapoints (set_defaults stream_5min unset_tunables) = Some 120 \<and>
   prep_smooth_kernal (set_defaults stream_5min unset_tunables) = Some 2 \<and>
   smooth_kernal (set_defaults stream_5min unset_tunables) = Some 2 \<and>
   hole_size_threshold (set_defaults stream_5min unset_tunables) = None \<and>
   n_max_exceeds (set_defaults stream_5min unset_tunables) = Some 20"
  by (simp add: get_frequence_5min default_defs frequence_5min unset_tunables_def)

text \<open>
  C1, amended: for every stream whose frequency value, the estimated median spacing in
  minutes multiplied by 60, is 5.0, each unset tunable resolves to the value of the bucket
  \<open>1 < f \<le> 5\<close>: 100, 5, 30, 30 and 100.
\<close>

theorem C1_frequence_five_bucket:
  assumes "frequence_of module_data = Some 5"
  shows "(min_number_of_datapoints ps = None \<longrightarrow>
            min_number_of_datapoints (set_defaults module_data ps) = Some 100) \<and>
         (prep_smooth_kernal ps = None \<longrightarrow>
            prep_smooth_kernal (set_defaults module_data ps) = Some 5) \<and>
         (smooth_kernal ps = None \<longrightarrow>
            smooth_kernal (set_defaults module_data ps) = Some 30) \<and>
         (hole_size_threshold ps = None \<longrightarrow>
            hole_size_threshold (set_defaults module_data ps) = Some 30) \<and>
         (n_max_exceeds ps = None \<longrightarrow>
            n_max_exceeds (set_defaults module_data ps) = Some 100)"
proof -
  have a: "min_number_of_datapoints ps = None \<Longrightarrow>
      min_number_of_datapoints (default_min_number_of_datapoints (Some 5) ps) = Some 100"
    by (simp add: default_min_number_of_datapoints_def nan_le_def nan_gt_def)
  have b: "prep_smooth_kernal ps' = None \<Longrightarrow>
      prep_smooth_kernal (default_prep_smooth_kernal (Some 5) ps') = Some 5" for ps'
    by (simp add: default_prep_smooth_kernal_def nan_le_def nan_gt_def)
  have c: "smooth_kernal ps' = None \<Longrightarrow>
      smooth_kernal (default_smooth_kernal (Some 5) ps') = Some 30" for ps'
    by (simp add: default_smooth_kernal_def nan_le_def nan_gt_def)
  have d: "hole_size_threshold ps' = None \<Longrightarrow>
      hole_size_threshold (default_hole_size_threshold (Some 5) ps') = Some 30" for ps'
    by (simp add: default_hole_size_threshold_def nan_le_def nan_gt_def)
  have e: "n_max_exceeds ps' = None \<Longrightarrow>
      n_max_exceeds (default_n_max_exceeds (Some 5) ps') = Some 100" for ps'
    by (simp add: default_n_max_exceeds_def nan_le_def nan_gt_def)
  show ?thesis
    using assms
    by (simp add: set_defaults_def Let_def default_fields default_hole_low a b c d e)
qed

theorem C1_frequence_five_bucket_witness:
  "frequence_of stream_5s = Some 5 \<and>
   min_number_of_datapoints (set_defaults stream_5s unset_tunables) = Some 100 \<and>
   prep_smooth_kernal (set_defaults stream_5s unset_tunables) = Some 5 \<and>
   smooth_kernal (set_defaults stream_5s unset_tunables) = Some 30 \<and>
   hole_size_threshold (set_defaults stream_5s unset_tunables) = Some 30 \<and>
   n_max_exceeds (set_defaults stream_5s unset_tunables) = Some 100"
  using C1_frequence_five_bucket [OF frequence_5s, of unset_tunables]
  by (simp add: frequence_5s unset_tunables_def)

text \<open>
  C9: with the gap threshold unset and a frequency value above 15, the resolution assigns
  120 to \<^verbatim>\<open>min_number_of_datapoints\<close> and leaves \<^verbatim>\<open>hole_size_threshold\<close> unset.
\<close>

theorem C9_top_bucket_overwrites_min_points:
  assumes "hole_size_threshold ps = None" and "frequence_of module_data = Some f" and "f > 15"
  shows "min_number_of_datapoints (set_defaults module_data ps) = Some 120 \<and>
         hole_size_threshold (set_defaults module_data ps) = None"
  using assms by (simp add: set_defaults_def Let_def default_fields default_hole_top)

theorem C9_top_bucket_overwrites_min_points_witness:
  "hole_size_threshold unset_tunables = None \<and> frequence_of stream_30min = Some 1800 \<and>
   (1800 :: real) > 15 \<and>
   min_number_of_datapoints (set_defaults stream_30min unset_tunables) = Some 120 \<and>
   hole_size_threshold (set_defaults stream_30min unset_tunables) = None"
proof -
  have h: "hole_size_threshold unset_tunables = None" by (simp add: unset_tunables_def)
  show ?thesis
    using C9_top_bucket_overwrites_min_points [OF h frequence_30min] h frequence_30min by simp
qed

text \<open>
  C2 on the code: the input has the two streams \<open>stream_1s\<close> (frequency value 1) and
  \<open>stream_30min\<close> (frequency value 1800). On its own the second stream resolves
  \<^verbatim>\<open>min_number_of_datapoints\<close> to 20; in the loop it is processed with 300, the value that
  the first stream resolved.
\<close>

theorem C2_second_stream_takes_first_default:
  "partition_by (stream_1s @ stream_30min) = [stream_1s, stream_30min] \<and>
   map min_number_of_datapoints
     (tunables_in_force signature_tunables [stream_1s, stream_30min]) = [Some 300, Some 300] \<and>
   min_number_of_datapoints (set_defaults stream_30min signature_tunables) = Some 20"
proof -
  have "partition_by (stream_1s @ stream_30min) = [stream_1s, stream_30min]"
    by (simp add: partition_by_def group_by_def first_seen_def stream_1s_def stream_30min_def
        row_def)
  moreover have "map min_number_of_datapoints
      (tunables_in_force signature_tunables [stream_1s, stream_30min]) = [Some 300, Some 300]"
    by (simp add: default_defs frequence_30min frequence_1s signature_tunables_def)
  moreover have "min_number_of_datapoints (set_defaults stream_30min signature_tunables) = Some 20"
    by (simp add: default_defs frequence_30min signature_tunables_def)
  ultimately show ?thesis by simp
qed

subsection \<open>The gap check\<close>








lemmas daytime_defs = row_def add_daytime_def add_daytime_row_def daytime_of_def
  hour_of_def minute_of_def second_of_def ns_per_day_def



subsection \<open>One day against its template\<close>

lemma clear_day_daytime:
  "add_daytime clear_day =
     [drow 3600000000000 0 1 60, drow 4200000000000 4 1 70, drow 4800000000000 8 1 80,
      drow 5400000000000 4 1 90, drow 6000000000000 0 1 100]"
  by (simp add: clear_day_def daytime_defs drow_def)

lemma clear_day_sorted:
  "sort_key day_time (add_daytime clear_day) = add_daytime clear_day"
  by (simp add: clear_day_daytime drow_def)

lemma rolling_mean_1: "rolling_mean 1 xs = xs"
proof -
  have "rolling_window 1 xs i = Some [xs ! i]" if "i < length xs" for i
    using that by (simp add: rolling_window_def take_Suc_conv_app_nth hd_drop_conv_nth take_Suc)
  then have "rolling_mean 1 xs = map (\<lambda>i. xs ! i) [0..<length xs]"
    unfolding rolling_mean_def
    by (intro map_cong) (auto simp: window_mean_def split: option.splits)
  then show ?thesis by (simp add: map_nth)
qed

lemma clear_day_template:
  "get_clearskytemplate clear_day 0.9 (Some 1) (Some 1) =
     [trow 60 (Some 0) (Some 0), trow 70 (Some (18 / 5)) (Some (18 / 5)),
      trow 80 (Some (36 / 5)) (Some (36 / 5)), trow 90 (Some (18 / 5)) (Some (18 / 5)),
      trow 100 (Some 0) (Some 0)]"
  using rolling_mean_1
  by (simp add: get_clearskytemplate_def Let_def clear_day_sorted clear_day_daytime drow_def
      group_by_def first_seen_def agg_max_def List.map_filter_def trow_def)

lemma clear_day_comp:
  "drop_nulls (join_asof (add_daytime clear_day)
      (get_clearskytemplate clear_day 0.9 (Some 1) (Some 1))) =
     [crow 60 0 0, crow 70 4 (18 / 5), crow 80 8 (36 / 5), crow 90 4 (18 / 5), crow 100 0 0]"
  unfolding clear_day_template clear_day_daytime
  by (simp add: drop_nulls_def join_asof_def asof_backward_def List.map_filter_def trow_def drow_def
      crow_def)

lemma sum_list_scale: "sum_list (map (\<lambda>x. f x * (a::real)) xs) = sum_list (map f xs) * a"
  by (induction xs) (simp_all add: algebra_simps)

lemma mean_scale: "mean (map (\<lambda>x. x * a) xs) = mean xs * a"
  using sum_list_scale [of "\<lambda>x. x" a xs] by (simp add: mean_def)

lemma map2_same: "map2 f xs (map g xs) = map (\<lambda>x. f x (g x)) xs"
  by (induction xs) simp_all

lemma map2_diag: "map2 f xs xs = map (\<lambda>x. f x x) xs"
  by (induction xs) simp_all

lemma cov_scale_right: "cov xs (map (\<lambda>x. x * a) xs) = cov xs xs * a"
proof -
  have "map2 (\<lambda>x y. (x - mean xs) * (y - mean (map (\<lambda>x. x * a) xs))) xs (map (\<lambda>x. x * a) xs)
      = map (\<lambda>x. ((x - mean xs) * (x - mean xs)) * a) xs"
    by (simp add: map2_same mean_scale algebra_simps)
  then show ?thesis
    using sum_list_scale [of "\<lambda>x. (x - mean xs) * (x - mean xs)" a xs]
    by (simp add: cov_def map2_diag)
qed

lemma cov_scale_both:
  "cov (map (\<lambda>x. x * a) xs) (map (\<lambda>x. x * a) xs) = cov xs xs * (a * a)"
proof -
  have "(\<lambda>x. (x * a - mean xs * a) * (x * a - mean xs * a))
      = (\<lambda>x. ((x - mean xs) * (x - mean xs)) * (a * a))"
    by (rule ext) (simp add: algebra_simps)
  then show ?thesis
    using sum_list_scale [of "\<lambda>x. (x - mean xs) * (x - mean xs)" "a * a" xs]
    by (simp add: cov_def map2_diag mean_scale comp_def)
qed

lemma corrcoef_scaled:
  assumes "2 \<le> length xs" and "0 < cov xs xs" and "0 < a"
  shows "corrcoef xs (map (\<lambda>x. x * a) xs) = Some 1"
proof -
  let ?v = "cov xs xs"
  have "sqrt (?v * (a * a)) = sqrt ?v * a"
    using assms(3) by (simp add: real_sqrt_mult)
  moreover have "sqrt ?v * sqrt ?v = ?v"
    using assms(2) by simp
  ultimately have "?v * a / sqrt ?v / sqrt (?v * (a * a)) = 1"
    using assms(2,3) by (simp add: field_simps)
  then show ?thesis
    using assms by (simp add: corrcoef_def cov_scale_right cov_scale_both)
qed

lemma clear_day_corr:
  "corrcoef [0, 4, 8, 4, 0] [0, 18 / 5, 36 / 5, 18 / 5, 0] = Some 1"
proof -
  have "cov [0, 4, 8, 4, 0] [0, 4, 8, 4, 0] = 56 / 5"
    by (simp add: cov_def mean_def)
  then show ?thesis
    using corrcoef_scaled [of "[0, 4, 8, 4, 0]" "9 / 10"] by simp
qed

lemma clear_day_holes:
  "bad_holes_check (add_daytime clear_day) (Some 100) = Inr (True, Some 10)"
  by (simp add: bad_holes_check_def clear_day_daytime drow_def consecutive_diffs_def np_max_def)


lemma check_distance_count:
  "check_distance comp_data (Some md) (Some n) = Inr (int (exceed_count comp_data md) \<le> n)"
  by (simp add: check_distance_def exceed_count_def Let_def length_filter_map comp_def)

text \<open>
  C3: a day that passed the quality gate (more rows than \<^verbatim>\<open>min_number_of_datapoints\<close>, first
  and last power within the limit, gap check passed) is taken exactly when the correlation
  of its aligned power values with the template values is strictly greater than
  \<^verbatim>\<open>corr_threshold\<close> and the number of aligned pairs deviating by strictly more than
  \<^verbatim>\<open>max_dist\<close> is at most \<^verbatim>\<open>n_max_exceeds\<close>. An undefined correlation is not greater.
\<close>

theorem C3_accepted_iff_corr_and_exceeds:
  assumes "min_number_of_datapoints ps = Some m" and "int (length day_data0) > m"
    and "day_data = sort_key day_time (add_daytime day_data0)"
    and "power_col (hd day_data) \<le> first_last_limit cfg"
    and "power_col (last day_data) \<le> first_last_limit cfg"
    and "bad_holes_check day_data (hole_size_threshold ps) = Inr (True, hole_size)"
    and "max_dist ps = Some md" and "n_max_exceeds ps = Some n"
    and "comp_data = drop_nulls (join_asof day_data cst)"
    and "corr = corrcoef (map comp_power comp_data) (map comp_tmp_power comp_data)"
  shows "((\<exists>frame. day_step cfg ps cst day_data0 = Inr (Some frame)) \<longleftrightarrow>
            nan_gt corr (corr_threshold cfg) \<and> int (exceed_count comp_data md) \<le> n) \<and>
         day_step cfg ps cst day_data0 =
           (if nan_gt corr (corr_threshold cfg) \<and> int (exceed_count comp_data md) \<le> n
            then Inr (Some \<lparr>frame_columns = day_columns cfg,
                            frame_rows = map (with_Corr (the corr)) day_data\<rparr>)
            else Inr None)"
proof -
  have ne: "day_data \<noteq> []"
    using assms(6) by (auto simp: bad_holes_check_def)
  have step: "day_step cfg ps cst day_data0 =
           (if nan_gt corr (corr_threshold cfg) \<and> int (exceed_count comp_data md) \<le> n
            then Inr (Some \<lparr>frame_columns = day_columns cfg,
                            frame_rows = map (with_Corr (the corr)) day_data\<rparr>)
            else Inr None)"
    using assms(1,2,4,5,6,7,8) ne
    unfolding day_step_def assms(3)[symmetric] assms(9)[symmetric] Let_def
    by (cases corr) (simp_all add: assms(10)[symmetric] nan_gt_def check_distance_count)
  then show ?thesis by simp
qed

theorem C3_accepted_iff_corr_and_exceeds_witness:
  "bad_holes_check (add_daytime clear_day) (hole_size_threshold manual_tunables) = Inr (True, Some 10) \<and>
   corrcoef [0, 4, 8, 4, 0] [0, 18 / 5, 36 / 5, 18 / 5, 0] = Some 1 \<and>
   nan_gt (Some 1) (corr_threshold example_config) \<and>
   (\<exists>frame. day_step example_config manual_tunables
      (get_clearskytemplate clear_day 0.9 (Some 1) (Some 1)) clear_day = Inr (Some frame))"
proof -
  let ?cst = "get_clearskytemplate clear_day 0.9 (Some 1) (Some 1)"
  let ?comp = "[crow 60 0 0, crow 70 4 (18 / 5), crow 80 8 (36 / 5), crow 90 4 (18 / 5), crow 100 0 0]"
  have h1: "min_number_of_datapoints manual_tunables = Some 4"
    and h7: "max_dist manual_tunables = Some 40" and h8: "n_max_exceeds manual_tunables = Some 50"
    by (simp_all add: manual_tunables_def)
  have h2: "int (length clear_day) > 4" by (simp add: clear_day_def)
  have h3: "add_daytime clear_day = sort_key day_time (add_daytime clear_day)"
    by (simp add: clear_day_sorted)
  have h4: "power_col (hd (add_daytime clear_day)) \<le> first_last_limit example_config"
    and h5: "power_col (last (add_daytime clear_day)) \<le> first_last_limit example_config"
    by (simp_all add: clear_day_daytime drow_def example_config_def)
  have h6: "bad_holes_check (add_daytime clear_day) (hole_size_threshold manual_tunables)
      = Inr (True, Some 10)"
    using clear_day_holes by (simp add: manual_tunables_def)
  have h9: "?comp = drop_nulls (join_asof (add_daytime clear_day) ?cst)"
    by (simp only: clear_day_comp)
  have h10: "Some 1 = corrcoef (map comp_power ?comp) (map comp_tmp_power ?comp)"
    using clear_day_corr by (simp add: crow_def)
  have e: "int (exceed_count ?comp 40) \<le> 50"
    by (simp add: exceed_count_def crow_def)
  have g: "nan_gt (Some 1) (corr_threshold example_config)"
    by (simp add: nan_gt_def example_config_def)
  show ?thesis
    using C3_accepted_iff_corr_and_exceeds [OF h1 h2 h3 h4 h5 h6 h7 h8 h9 h10] e g h6 clear_day_corr
    by simp
qed

lemma corrcoef_short: "length xs < 2 \<Longrightarrow> corrcoef xs ys = None"
  by (simp add: corrcoef_def)

text \<open>
  C8: a gated day whose alignment leaves fewer than two pairs is not taken, no error is
  raised, and the loop goes on with the remaining days of the window.
\<close>

theorem C8_too_few_pairs_rejected:
  assumes "min_number_of_datapoints ps = Some m" and "int (length day_data0) > m"
    and "day_data = sort_key day_time (add_daytime day_data0)"
    and "power_col (hd day_data) \<le> first_last_limit cfg"
    and "power_col (last day_data) \<le> first_last_limit cfg"
    and "bad_holes_check day_data (hole_size_threshold ps) = Inr (True, hole_size)"
    and "length (drop_nulls (join_asof day_data cst)) < 2"
  shows "day_step cfg ps cst day_data0 = Inr None \<and>
         days_loop cfg ps cst (day_data0 # days) acc = days_loop cfg ps cst days acc"
proof -
  have ne: "day_data \<noteq> []"
    using assms(6) by (auto simp: bad_holes_check_def)
  have "corrcoef (map comp_power (drop_nulls (join_asof day_data cst)))
      (map comp_tmp_power (drop_nulls (join_asof day_data cst))) = None"
    using assms(7) by (simp add: corrcoef_short)
  then have "day_step cfg ps cst day_data0 = Inr None"
    using assms(1,2,4,5,6) ne
    unfolding day_step_def assms(3)[symmetric] Let_def by simp
  then show ?thesis by simp
qed

lemma clear_day_template_60:
  "get_clearskytemplate clear_day 0.9 (Some 10) (Some 60) =
     [trow 60 None None, trow 70 None None, trow 80 None None, trow 90 None None,
      trow 100 None None]"
  unfolding get_clearskytemplate_def clear_day_sorted Let_def clear_day_daytime
  by (simp add: drow_def rolling_mean_def rolling_window_def upt_rec
      group_by_def first_seen_def agg_max_def List.map_filter_def trow_def)

theorem C8_too_few_pairs_rejected_witness:
  "length (drop_nulls (join_asof (add_daytime clear_day)
      (get_clearskytemplate clear_day 0.9 (Some 10) (Some 60)))) < 2 \<and>
   day_step example_config manual_tunables
      (get_clearskytemplate clear_day 0.9 (Some 10) (Some 60)) clear_day = Inr None \<and>
   days_loop example_config manual_tunables
      (get_clearskytemplate clear_day 0.9 (Some 10) (Some 60)) [clear_day, clear_day] [] = Inr []"
proof -
  let ?cst = "get_clearskytemplate clear_day 0.9 (Some 10) (Some 60)"
  have h1: "min_number_of_datapoints manual_tunables = Some 4"
    by (simp_all add: manual_tunables_def)
  have h2: "int (length clear_day) > 4" by (simp add: clear_day_def)
  have h3: "add_daytime clear_day = sort_key day_time (add_daytime clear_day)"
    by (simp add: clear_day_sorted)
  have h4: "power_col (hd (add_daytime clear_day)) \<le> first_last_limit example_config"
    and h5: "power_col (last (add_daytime clear_day)) \<le> first_last_limit example_config"
    by (simp_all add: clear_day_daytime drow_def example_config_def)
  have h6: "bad_holes_check (add_daytime clear_day) (hole_size_threshold manual_tunables)
      = Inr (True, Some 10)"
    using clear_day_holes by (simp add: manual_tunables_def)
  have h7: "length (drop_nulls (join_asof (add_daytime clear_day) ?cst)) < 2"
    unfolding clear_day_template_60 clear_day_daytime
    by (simp add: drop_nulls_def join_asof_def asof_backward_def List.map_filter_def trow_def
        drow_def)
  show ?thesis
    using C8_too_few_pairs_rejected [OF h1 h2 h3 h4 h5 h6 h7, of "[clear_day]" "[]"]
      C8_too_few_pairs_rejected [OF h1 h2 h3 h4 h5 h6 h7, of "[]" "[]"] h7
    by simp
qed

subsection \<open>The template\<close>

lemma set_first_seen: "set (first_seen ks) = set ks"
  by (simp add: first_seen_def)

lemma distinct_first_seen: "distinct (first_seen ks)"
  by (simp add: first_seen_def)

lemma sorted_wrt_remdups: "sorted_wrt P xs \<Longrightarrow> sorted_wrt P (remdups xs)"
  by (induction xs) auto

lemma sorted_first_seen: "sorted ks \<Longrightarrow> sorted (first_seen ks)"
proof -
  assume "sorted ks"
  then have "sorted_wrt (\<lambda>x y. y \<le> x) (rev ks)"
    by (simp add: sorted_wrt_rev)
  then have "sorted_wrt (\<lambda>x y. y \<le> x) (remdups (rev ks))"
    by (rule sorted_wrt_remdups)
  then show ?thesis
    by (simp add: first_seen_def sorted_wrt_rev)
qed

lemma agg_max_Some: "ps \<noteq> [] \<Longrightarrow> agg_max (map Some ps) = Some (Max (set ps))"
proof -
  assume "ps \<noteq> []"
  then obtain y ys where ps: "ps = y # ys" by (cases ps) auto
  have "List.map_filter (\<lambda>v. v) (map Some ps) = ps"
    by (induction ps) (simp_all add: List.map_filter_def)
  moreover have "foldl max y ys = Max (set (y # ys))"
    unfolding Max.set_eq_fold by (simp add: foldl_conv_fold max.commute)
  ultimately show ?thesis
    by (simp add: agg_max_def ps)
qed

lemma map2_maps: "map2 f (map g xs) (map h xs) = map (\<lambda>x. f (g x) (h x)) xs"
  by (induction xs) simp_all

lemma template_unsmoothed:
  "get_clearskytemplate id_data p None None =
     map (\<lambda>k. \<lparr>cst_day_time = k,
               cst_power = Some (bucket_max (sort_key day_time (add_daytime id_data)) k * p),
               tmp_power = Some (bucket_max (sort_key day_time (add_daytime id_data)) k * p)\<rparr>)
       (first_seen (map day_time (sort_key day_time (add_daytime id_data))))"
proof -
  define S where "S = sort_key day_time (add_daytime id_data)"
  have z: "zip (map day_time S) (map (\<lambda>r. Some (power_col r)) S)
      = map (\<lambda>r. (day_time r, Some (power_col r))) S"
    by (induction S) simp_all
  have keys: "map fst (map (\<lambda>r. (day_time r, Some (power_col r))) S) = map day_time S"
    by simp
  have bucket: "agg_max (map snd (filter (\<lambda>x. fst x = k)
        (map (\<lambda>r. (day_time r, Some (power_col r))) S))) = Some (bucket_max S k)"
    if "k \<in> set (map day_time S)" for k
  proof -
    have eq: "map snd (filter (\<lambda>x. fst x = k) (map (\<lambda>r. (day_time r, Some (power_col r))) S))
        = map Some (map power_col (filter (\<lambda>e. day_time e = k) S))"
      by (induction S) simp_all
    have ne: "map power_col (filter (\<lambda>e. day_time e = k) S) \<noteq> []"
      using that by (auto simp: filter_empty_conv)
    show ?thesis
      unfolding eq bucket_max_def by (rule agg_max_Some [OF ne])
  qed
  have "get_clearskytemplate id_data p None None =
      map (\<lambda>k. \<lparr>cst_day_time = k, cst_power = Some (bucket_max S k * p),
                 tmp_power = Some (bucket_max S k * p)\<rparr>) (first_seen (map day_time S))"
    unfolding get_clearskytemplate_def S_def [symmetric] Let_def option.case z group_by_def keys
    by (simp add: map2_maps comp_def bucket set_first_seen cong: map_cong)
  then show ?thesis by (simp add: S_def)
qed

lemma last_filter_le:
  "sorted ks \<Longrightarrow> distinct ks \<Longrightarrow> k \<in> set ks \<Longrightarrow>
   filter (\<lambda>x. x \<le> k) ks \<noteq> [] \<and> last (filter (\<lambda>x. x \<le> k) ks) = (k::real)"
proof (induction ks)
  case Nil
  then show ?case by simp
next
  case (Cons x xs)
  show ?case
  proof (cases "k = x")
    case True
    have "filter (\<lambda>y. y \<le> x) xs = []"
      using Cons.prems(1,2) by (auto simp: filter_empty_conv)
    then show ?thesis using True by simp
  next
    case False
    then have k: "k \<in> set xs" using Cons.prems(3) by simp
    then have "x \<le> k" using Cons.prems(1) by auto
    moreover have "filter (\<lambda>x. x \<le> k) xs \<noteq> [] \<and> last (filter (\<lambda>x. x \<le> k) xs) = k"
      using Cons.IH Cons.prems(1,2) k by simp
    ultimately show ?thesis by simp
  qed
qed

lemma asof_backward_exact:
  assumes "sorted ks" and "distinct ks" and "k \<in> set ks"
    and "\<And>x. cst_day_time (g x) = x"
  shows "asof_backward (map g ks) k = Some (g k)"
proof -
  have f: "filter (\<lambda>c. cst_day_time c \<le> k) (map g ks) = map g (filter (\<lambda>x. x \<le> k) ks)"
    by (simp add: filter_map comp_def assms(4))
  obtain y ys where ys: "filter (\<lambda>x. x \<le> k) ks = y # ys" and l: "last (y # ys) = k"
    using last_filter_le [OF assms(1-3)] by (cases "filter (\<lambda>x. x \<le> k) ks") auto
  have "last (map g (y # ys)) = g (last (y # ys))"
    by (rule last_map) simp
  then have "last (map g (y # ys)) = g k"
    using l by simp
  then show ?thesis
    by (simp add: asof_backward_def f ys)
qed

lemma map_filter_all_Some:
  "(\<And>x. x \<in> set xs \<Longrightarrow> f x = Some (g x)) \<Longrightarrow> List.map_filter f xs = map g xs"
  by (induction xs) (simp_all add: List.map_filter_def)

lemma map_filter_of_map: "List.map_filter f (map h xs) = List.map_filter (\<lambda>x. f (h x)) xs"
  by (induction xs) (simp_all add: List.map_filter_def)

lemma single_bucket:
  assumes "distinct (map day_time day_data)" and "d \<in> set day_data"
  shows "bucket_max day_data (day_time d) = power_col d"
proof -
  have "filter (\<lambda>e. day_time e = day_time d) day_data = [d]"
    using assms
  proof (induction day_data)
    case Nil
    then show ?case by simp
  next
    case (Cons a as)
    show ?case
    proof (cases "a = d")
      case True
      then have "day_time d \<notin> day_time ` set as"
        using Cons.prems(1) by simp
      then have "\<forall>e\<in>set as. day_time e \<noteq> day_time d"
        by (metis imageI)
      then have "filter (\<lambda>e. day_time e = day_time d) as = []"
        by (simp add: filter_empty_conv)
      then show ?thesis using True by simp
    next
      case False
      then have "d \<in> set as" using Cons.prems(2) by simp
      moreover from this have "day_time a \<noteq> day_time d" using Cons.prems(1) by auto
      ultimately show ?thesis using Cons.IH Cons.prems(1) by simp
    qed
  qed
  then show ?thesis by (simp add: bucket_max_def)
qed

lemma group_by_single:
  assumes "group_by f xs = [(k, g)]"
  shows "g = xs"
proof -
  have "first_seen (map f xs) = [k]" and g: "g = filter (\<lambda>x. f x = k) xs"
    using assms by (auto simp: group_by_def map_eq_Cons_conv)
  then have "set (map f xs) = {k}"
    using set_first_seen [of "map f xs"] by simp
  then have "\<forall>x\<in>set xs. f x = k" by auto
  then show ?thesis using g by simp
qed

text \<open>
  C7, amended: for a window of exactly one calendar day and with both smoothing passes
  disabled, every sample of the day is matched, and the template value matched to it is
  the percentile times the largest power of the day at that \<^verbatim>\<open>day_time\<close>; when no two
  samples of the day share a \<^verbatim>\<open>day_time\<close> that is the sample's own power times the
  percentile.
\<close>

theorem C7_single_day_template:
  assumes "group_by_date month_data = [day_data0]"
    and "day_data = sort_key day_time (add_daytime day_data0)"
    and "cst = get_clearskytemplate month_data p None None"
  shows "drop_nulls (join_asof day_data cst) =
           map (\<lambda>d. \<lparr>comp_day_time = day_time d, comp_power = power_col d,
                      comp_tmp_power = bucket_max day_data (day_time d) * p\<rparr>) day_data \<and>
         (distinct (map day_time day_data) \<longrightarrow>
            drop_nulls (join_asof day_data cst) =
              map (\<lambda>d. \<lparr>comp_day_time = day_time d, comp_power = power_col d,
                         comp_tmp_power = power_col d * p\<rparr>) day_data)"
proof -
  have same: "day_data0 = month_data"
  proof -
    obtain k where "group_by (\<lambda>r. date_of (time_col r)) month_data = [(k, day_data0)]"
      using assms(1) by (auto simp: group_by_date_def map_eq_Cons_conv)
    then show ?thesis by (rule group_by_single)
  qed
  let ?g = "\<lambda>k. \<lparr>cst_day_time = k, cst_power = Some (bucket_max day_data k * p),
                  tmp_power = Some (bucket_max day_data k * p)\<rparr>"
  let ?ks = "first_seen (map day_time day_data)"
  have cst: "cst = map ?g ?ks"
    unfolding assms(3) assms(2) same by (rule template_unsmoothed)
  have sorted: "sorted ?ks" and dist: "distinct ?ks"
    by (simp_all add: sorted_first_seen distinct_first_seen assms(2))
  have asof: "asof_backward cst (day_time d) = Some (?g (day_time d))" if "d \<in> set day_data" for d
    unfolding cst
    by (rule asof_backward_exact [OF sorted dist]) (use that in \<open>simp_all add: set_first_seen\<close>)
  have general: "drop_nulls (join_asof day_data cst) =
      map (\<lambda>d. \<lparr>comp_day_time = day_time d, comp_power = power_col d,
                 comp_tmp_power = bucket_max day_data (day_time d) * p\<rparr>) day_data"
    unfolding drop_nulls_def join_asof_def map_filter_of_map
    by (rule map_filter_all_Some) (simp add: asof)
  moreover have "drop_nulls (join_asof day_data cst) =
      map (\<lambda>d. \<lparr>comp_day_time = day_time d, comp_power = power_col d,
                 comp_tmp_power = power_col d * p\<rparr>) day_data"
    if "distinct (map day_time day_data)"
    unfolding general using single_bucket [OF that] by simp
  ultimately show ?thesis by simp
qed

text \<open>
  C7, as stated, fails on a day with two samples in one second: both are matched to the
  larger power times the percentile.
\<close>

theorem C7_shared_day_time_counterexample:
  "group_by_date dup_day = [dup_day] \<and>
   drop_nulls (join_asof (sort_key day_time (add_daytime dup_day))
      (get_clearskytemplate dup_day 0.9 None None)) = [crow 720 10 18, crow 720 20 18] \<and>
   comp_tmp_power (crow 720 10 18) \<noteq> comp_power (crow 720 10 18) * 0.9"
proof -
  have d: "add_daytime dup_day = [drow 43200000000000 10 1 720, drow 43200500000000 20 1 720]"
    by (simp add: dup_day_def daytime_defs drow_def)
  have s: "sort_key day_time (add_daytime dup_day) = add_daytime dup_day"
    by (simp add: d drow_def)
  have t: "get_clearskytemplate dup_day 0.9 None None = [trow 720 (Some 18) (Some 18)]"
    unfolding get_clearskytemplate_def s Let_def d
    by (simp add: drow_def group_by_def first_seen_def agg_max_def List.map_filter_def trow_def)
  have "group_by_date dup_day = [dup_day]"
    by (simp add: group_by_date_def group_by_def first_seen_def dup_day_def row_def date_of_def
        ns_per_day_def)
  moreover have "drop_nulls (join_asof (sort_key day_time (add_daytime dup_day))
      (get_clearskytemplate dup_day 0.9 None None)) = [crow 720 10 18, crow 720 20 18]"
    unfolding s t d
    by (simp add: drop_nulls_def join_asof_def asof_backward_def List.map_filter_def trow_def
        drow_def crow_def)
  ultimately show ?thesis by (simp add: crow_def)
qed

theorem C7_single_day_template_witness:
  "group_by_date clear_day = [clear_day] \<and>
   distinct (map day_time (sort_key day_time (add_daytime clear_day))) \<and>
   drop_nulls (join_asof (sort_key day_time (add_daytime clear_day))
      (get_clearskytemplate clear_day 0.9 None None)) =
     [crow 60 0 0, crow 70 4 (18 / 5), crow 80 8 (36 / 5), crow 90 4 (18 / 5), crow 100 0 0]"
proof -
  have g: "group_by_date clear_day = [clear_day]"
    by (simp add: group_by_date_def group_by_def first_seen_def clear_day_def row_def date_of_def
        ns_per_day_def)
  have di: "distinct (map day_time (sort_key day_time (add_daytime clear_day)))"
    by (simp add: clear_day_sorted clear_day_daytime drow_def)
  have "drop_nulls (join_asof (sort_key day_time (add_daytime clear_day))
      (get_clearskytemplate clear_day 0.9 None None)) =
      map (\<lambda>d. \<lparr>comp_day_time = day_time d, comp_power = power_col d,
                 comp_tmp_power = power_col d * 0.9\<rparr>) (sort_key day_time (add_daytime clear_day))"
    using C7_single_day_template [OF g refl refl, of "0.9"] di by blast
  then show ?thesis
    using g di by (simp add: clear_day_sorted clear_day_daytime drow_def crow_def)
qed





subsection \<open>The returned frame\<close>













lemma day_columns_explicit:
  assumes "''day_time'' \<notin> {column_time cfg, column_power cfg, id_column_name cfg}"
    and "''Corr'' \<notin> {column_time cfg, column_power cfg, id_column_name cfg}"
  shows "day_columns cfg =
     [column_time cfg, column_power cfg, id_column_name cfg, ''day_time'', ''Corr'']"
  using assms by (auto simp: day_columns_def add_daytime_columns_def with_column_name_def)







subsection \<open>Streams and dates of the accepted days\<close>





































end
